theory Spec2Isabelle
  imports Main "HOL-Library.Sublist"
begin

section \<open>Python values\<close>

text \<open>
  A Python \<open>str\<close> is a sequence of Unicode code points, and \<open>len\<close> counts code points;
  a code point is a natural number here. \<open>lit\<close> turns an ASCII literal of the source
  into such a sequence.
\<close>

type_synonym pystr = "nat list"

definition lit :: "string \<Rightarrow> pystr" where
  "lit cs = map of_char cs"

text \<open>
  The values that \<open>json.loads\<close> builds and that the tool functions return: \<open>None\<close>,
  booleans, integers, strings, lists, and dictionaries with string keys in insertion
  order. Floating-point numbers are left out.
\<close>

datatype pyval =
    PNone
  | PBool bool
  | PInt int
  | PStr pystr
  | PList "pyval list"
  | PDict "(pystr \<times> pyval) list"

text \<open>
  Exceptions as values. \<open>TypeError\<close> is raised by a keyword call \<open>f(**d)\<close> whose
  argument is no mapping or whose keys are not exactly the parameters of \<open>f\<close>;
  \<open>IndexError\<close> by \<open>choices[0]\<close> on an empty list; \<open>JSONDecodeError\<close> by
  \<open>json.loads\<close>; \<open>RequestException\<close> and \<open>APIError\<close> by the HTTP client and the
  model client. \<open>NonStringArgument\<close> is no Python exception: the tool schema of the
  source declares every tool parameter with \<open>"type": "string"\<close>, the tool functions
  below take strings, and what a tool function does with an argument that is not a
  string is outside this model; the dispatcher reports such a call under this name.
\<close>

datatype py_error =
    TypeError
  | IndexError
  | JSONDecodeError
  | RequestException
  | APIError
  | NonStringArgument

section \<open>String methods\<close>

definition newline :: nat where
  "newline = 10"

text \<open>
  \<open>s.split('\n')\<close>: the pieces of \<open>s\<close> between newlines; the empty string gives one
  empty piece, and a trailing newline gives a last empty piece.
\<close>

fun str_split :: "pystr \<Rightarrow> nat \<Rightarrow> pystr list" where
  "str_split [] sep = [[]]"
| "str_split (c # cs) sep =
     (if c = sep then [] # str_split cs sep
      else (case str_split cs sep of
              [] \<Rightarrow> [[c]]
            | l # ls \<Rightarrow> (c # l) # ls))"

text \<open>
  The code points that \<open>str.strip()\<close> removes (those for which \<open>str.isspace\<close> holds):
  U+0009..U+000D, U+001C..U+0020, U+0085, U+00A0, U+1680, U+2000..U+200A, U+2028,
  U+2029, U+202F, U+205F and U+3000.
\<close>

definition is_space :: "nat \<Rightarrow> bool" where
  "is_space c =
     ((9 \<le> c \<and> c \<le> 13) \<or> (28 \<le> c \<and> c \<le> 32) \<or> c = 133 \<or> c = 160 \<or> c = 5760
      \<or> (8192 \<le> c \<and> c \<le> 8202) \<or> c = 8232 \<or> c = 8233 \<or> c = 8239 \<or> c = 8287
      \<or> c = 12288)"

definition strip :: "pystr \<Rightarrow> pystr" where
  "strip s = rev (dropWhile is_space (rev (dropWhile is_space s)))"

text \<open>\<open>s.startswith((p1, ..., pn))\<close>: some \<open>pi\<close> is a prefix of \<open>s\<close>.\<close>

definition startswith :: "pystr \<Rightarrow> pystr list \<Rightarrow> bool" where
  "startswith s ps = list_ex (\<lambda>p. prefix p s) ps"

text \<open>
  \<open>s.count(sub)\<close>: the number of non-overlapping occurrences of \<open>sub\<close> in \<open>s\<close>, found
  from left to right; the search resumes behind each occurrence. For the empty \<open>sub\<close>
  Python answers \<open>len(s) + 1\<close>.
\<close>

function str_count :: "pystr \<Rightarrow> pystr \<Rightarrow> nat" where
  "str_count s sub =
     (if sub = [] then Suc (length s)
      else if s = [] then 0
      else if prefix sub s then Suc (str_count (drop (length sub) s) sub)
      else str_count (tl s) sub)"
  by pat_completeness auto
termination
  by (relation "measure (\<lambda>(s, sub). length s)") auto

section \<open>The program state and the outside world\<close>

text \<open>
  The calls of tool functions that the dispatcher has made, in order, each with the
  values it passed. The source keeps no such list; it is recorded here so that theorems
  can say which tools ran.
\<close>

datatype tool_run =
    FetchGithubFile pyval pyval pyval
  | AnalyzeCodeQuality pyval

text \<open>
  \<open>file_cache\<close> is the global dictionary of the source. The other fields record the
  interaction with the outside world: the URLs requested with \<open>requests.get\<close>, the
  number of chat completions requested, and the tool functions called.
\<close>

record state =
  file_cache :: "pystr \<rightharpoonup> pystr"
  http_log :: "pystr list"
  model_calls :: nat
  tool_log :: "tool_run list"

record response =
  status_code :: int
  resp_text :: pystr

text \<open>
  A requested tool invocation of a model response (\<open>tool_call.id\<close>,
  \<open>tool_call.function.name\<close>, \<open>tool_call.function.arguments\<close>) and the message of a
  choice (\<open>message.content\<close>, \<open>message.tool_calls\<close>; both may be \<open>None\<close>).
\<close>

record tool_call =
  call_id :: pystr
  function_name :: pystr
  function_arguments :: pystr

record chat_message =
  content :: "pystr option"
  tool_calls :: "tool_call list option"

text \<open>
  What the program calls and does not define. \<open>requests_get n url\<close> is the outcome of
  the \<open>n\<close>-th call of \<open>requests.get\<close> (counting from 0) when it asks for \<open>url\<close>;
  \<open>chat_completions_create n messages\<close> is the outcome of the \<open>n\<close>-th chat completion:
  an exception, or the messages of \<open>response.choices\<close>. Any run of the program against
  any server is the run against some such pair of functions. \<open>json_loads\<close> and
  \<open>json_dumps\<close> are the functions of Python's \<open>json\<close> module.
\<close>

record env =
  requests_get :: "nat \<Rightarrow> pystr \<Rightarrow> py_error + response"
  chat_completions_create :: "nat \<Rightarrow> pyval list \<Rightarrow> py_error + chat_message list"
  json_loads :: "pystr \<Rightarrow> py_error + pyval"
  json_dumps :: "pyval \<Rightarrow> pystr"

definition http_get :: "env \<Rightarrow> pystr \<Rightarrow> state \<Rightarrow> (py_error + response) \<times> state" where
  "http_get e url s =
     (requests_get e (length (http_log s)) url, s\<lparr>http_log := http_log s @ [url]\<rparr>)"

section \<open>The tools\<close>

definition fetch_github_file ::
  "env \<Rightarrow> pystr \<Rightarrow> pystr \<Rightarrow> pystr \<Rightarrow> state \<Rightarrow> (py_error + pyval) \<times> state" where
  "fetch_github_file e owner repo file_path s =
     (let url = lit ''https://raw.githubusercontent.com/'' @ owner @ lit ''/'' @ repo
                  @ lit ''/main/'' @ file_path;
          (r, s1) = http_get e url s
      in case r of
           Inl err \<Rightarrow> (Inl err, s1)
         | Inr response \<Rightarrow>
             if status_code response = 200 then
               (Inr (PDict [(lit ''success'', PBool True),
                            (lit ''file_path'', PStr file_path),
                            (lit ''size'', PInt (int (length (resp_text response))))]),
                s1\<lparr>file_cache := (file_cache s1)(file_path \<mapsto> resp_text response)\<rparr>)
             else
               (let url = lit ''https://raw.githubusercontent.com/'' @ owner @ lit ''/'' @ repo
                            @ lit ''/master/'' @ file_path;
                    (r, s2) = http_get e url s1
                in case r of
                     Inl err \<Rightarrow> (Inl err, s2)
                   | Inr response \<Rightarrow>
                       if status_code response = 200 then
                         (Inr (PDict [(lit ''success'', PBool True),
                                      (lit ''file_path'', PStr file_path),
                                      (lit ''size'', PInt (int (length (resp_text response))))]),
                          s2\<lparr>file_cache := (file_cache s2)(file_path \<mapsto> resp_text response)\<rparr>)
                       else
                         (Inr (PDict [(lit ''success'', PBool False),
                                      (lit ''error'', PStr (lit ''File not found''))]),
                          s2)))"

definition analyze_code_quality :: "pystr \<Rightarrow> state \<Rightarrow> (py_error + pyval) \<times> state" where
  "analyze_code_quality file_path s =
     (case file_cache s file_path of
        None \<Rightarrow>
          (Inr (PDict [(lit ''error'',
                        PStr (lit ''File not fetched yet. Call fetch_github_file first.''))]),
           s)
      | Some code \<Rightarrow>
          (let lines = str_split code newline;
               total_lines = length lines;
               code_lines = length (filter (\<lambda>l. strip l \<noteq> [] \<and>
                   \<not> startswith (strip l) [lit ''//'', lit ''#'', lit ''/*'', lit ''*'']) lines);
               function_count = str_count code (lit ''function '') + str_count code (lit ''def '')
                   + str_count code (lit ''const '') + str_count code (lit ''let '')
           in (Inr (PDict [(lit ''file_path'', PStr file_path),
                           (lit ''total_lines'', PInt (int total_lines)),
                           (lit ''code_lines'', PInt (int code_lines)),
                           (lit ''estimated_functions'', PInt (int function_count)),
                           (lit ''note'', PStr (lit ''Metrics calculated from cached file.''))]),
               s)))"

section \<open>The dispatcher\<close>

text \<open>
  The keyword call \<open>f(**tool_input)\<close> for a function \<open>f\<close> with the parameters
  \<open>params\<close>: \<open>tool_input\<close> must be a dictionary, each of its keys must be a parameter
  and each parameter must be a key; anything else raises \<open>TypeError\<close> before the body
  of \<open>f\<close> runs. The result gives each parameter its value.
\<close>

definition bind_kwargs :: "pystr list \<Rightarrow> pyval \<Rightarrow> py_error + (pystr \<Rightarrow> pyval)" where
  "bind_kwargs params tool_input =
     (case tool_input of
        PDict kvs \<Rightarrow>
          if list_all (\<lambda>k. k \<in> set params) (map fst kvs)
             \<and> list_all (\<lambda>p. p \<in> set (map fst kvs)) params
          then Inr (\<lambda>p. case map_of kvs p of Some v \<Rightarrow> v | None \<Rightarrow> PNone)
          else Inl TypeError
      | _ \<Rightarrow> Inl TypeError)"

text \<open>
  The dispatcher. Once the keyword call has bound the parameters the tool function is
  entered, which \<open>tool_log\<close> records; the tool functions are modelled for string
  arguments (see \<open>NonStringArgument\<close>). A name that is neither tool falls through both
  branches, and the function returns \<open>None\<close>.
\<close>

definition process_tool_call ::
  "env \<Rightarrow> pystr \<Rightarrow> pyval \<Rightarrow> state \<Rightarrow> (py_error + pyval) \<times> state" where
  "process_tool_call e tool_name tool_input s =
     (if tool_name = lit ''fetch_github_file'' then
        (case bind_kwargs [lit ''owner'', lit ''repo'', lit ''file_path''] tool_input of
           Inl err \<Rightarrow> (Inl err, s)
         | Inr arg \<Rightarrow>
             (let s' = s\<lparr>tool_log := tool_log s @
                          [FetchGithubFile (arg (lit ''owner'')) (arg (lit ''repo''))
                             (arg (lit ''file_path''))]\<rparr>
              in case (arg (lit ''owner''), arg (lit ''repo''), arg (lit ''file_path'')) of
                   (PStr owner, PStr repo, PStr file_path) \<Rightarrow>
                     fetch_github_file e owner repo file_path s'
                 | _ \<Rightarrow> (Inl NonStringArgument, s')))
      else if tool_name = lit ''analyze_code_quality'' then
        (case bind_kwargs [lit ''file_path''] tool_input of
           Inl err \<Rightarrow> (Inl err, s)
         | Inr arg \<Rightarrow>
             (let s' = s\<lparr>tool_log := tool_log s @
                          [AnalyzeCodeQuality (arg (lit ''file_path''))]\<rparr>
              in case arg (lit ''file_path'') of
                   PStr file_path \<Rightarrow> analyze_code_quality file_path s'
                 | _ \<Rightarrow> (Inl NonStringArgument, s')))
      else (Inr PNone, s))"

section \<open>The agent loop\<close>

definition max_iterations :: nat where
  "max_iterations = 10"

text \<open>
  How one pass through the body of the \<open>while\<close> loop ends: the loop goes on with a
  longer transcript, \<open>run_agent\<close> returns the content of the model's message, or an
  exception leaves the loop and \<open>run_agent\<close>.
\<close>

datatype step =
    Continue "pyval list" state
  | Return "pystr option" state
  | Raise py_error state

fun state_of :: "step \<Rightarrow> state" where
  "state_of (Continue messages s) = s"
| "state_of (Return final_response s) = s"
| "state_of (Raise err s) = s"

text \<open>
  The two dictionaries that the loop appends after a tool call: the assistant message
  with the one invocation it honoured, and the tool message with the result.
\<close>

definition assistant_entry :: "tool_call \<Rightarrow> pyval" where
  "assistant_entry tool_call =
     PDict [(lit ''role'', PStr (lit ''assistant'')),
            (lit ''content'', PStr []),
            (lit ''tool_calls'',
             PList [PDict [(lit ''id'', PStr (call_id tool_call)),
                           (lit ''type'', PStr (lit ''function'')),
                           (lit ''function'',
                            PDict [(lit ''name'', PStr (function_name tool_call)),
                                   (lit ''arguments'',
                                    PStr (function_arguments tool_call))])]])]"

definition tool_entry :: "env \<Rightarrow> tool_call \<Rightarrow> pyval \<Rightarrow> pyval" where
  "tool_entry e tool_call result =
     PDict [(lit ''role'', PStr (lit ''tool'')),
            (lit ''tool_call_id'', PStr (call_id tool_call)),
            (lit ''content'', PStr (json_dumps e result))]"

text \<open>
  The body of the loop. \<open>if assistant_message.tool_calls\<close> holds for a list that is
  neither \<open>None\<close> nor empty, and \<open>tool_calls[0]\<close> is its head.
\<close>

definition loop_body :: "env \<Rightarrow> pyval list \<Rightarrow> state \<Rightarrow> step" where
  "loop_body e messages s =
     (let s1 = s\<lparr>model_calls := Suc (model_calls s)\<rparr> in
      case chat_completions_create e (model_calls s) messages of
        Inl err \<Rightarrow> Raise err s1
      | Inr choices \<Rightarrow>
          (case choices of
             [] \<Rightarrow> Raise IndexError s1
           | assistant_message # _ \<Rightarrow>
               (case tool_calls assistant_message of
                  Some (tool_call # _) \<Rightarrow>
                    (case json_loads e (function_arguments tool_call) of
                       Inl err \<Rightarrow> Raise err s1
                     | Inr tool_args \<Rightarrow>
                         (case process_tool_call e (function_name tool_call) tool_args s1 of
                            (Inl err, s2) \<Rightarrow> Raise err s2
                          | (Inr result, s2) \<Rightarrow>
                              Continue
                                (messages @ [assistant_entry tool_call,
                                             tool_entry e tool_call result])
                                s2))
                | _ \<Rightarrow> Return (content assistant_message) s1)))"

text \<open>
  The \<open>while\<close> loop, from the value that \<open>iteration\<close> has before the test, and
  \<open>run_agent\<close>, which enters it with \<open>iteration = 0\<close> and the two seed messages.
\<close>

function run_loop ::
  "env \<Rightarrow> nat \<Rightarrow> pyval list \<Rightarrow> state \<Rightarrow> (py_error + pystr option) \<times> state" where
  "run_loop e iteration messages s =
     (if iteration < max_iterations then
        (case loop_body e messages s of
           Continue messages' s' \<Rightarrow> run_loop e (iteration + 1) messages' s'
         | Return final_response s' \<Rightarrow> (Inr final_response, s')
         | Raise err s' \<Rightarrow> (Inl err, s'))
      else (Inr (Some (lit ''Max iterations reached'')), s))"
  by pat_completeness auto
termination
  by (relation "measure (\<lambda>(e, iteration, messages, s). max_iterations - iteration)") auto

definition initial_messages :: "pystr \<Rightarrow> pyval list" where
  "initial_messages user_message =
     [PDict [(lit ''role'', PStr (lit ''user'')), (lit ''content'', PStr user_message)],
      PDict [(lit ''role'', PStr (lit ''system'')),
             (lit ''content'',
              PStr (lit (''You are a code quality analysis agent. Use the tools to fetch ''
                @ ''and analyze code from GitHub repositories. Call one tool at a time.'')))]]"

definition run_agent ::
  "env \<Rightarrow> pystr \<Rightarrow> state \<Rightarrow> (py_error + pystr option) \<times> state" where
  "run_agent e user_message s = run_loop e 0 (initial_messages user_message) s"

section \<open>Notions of the specification\<close>

text \<open>
  The raw-content URL of a branch:
  \<open>https://raw.githubusercontent.com/{owner}/{repo}/{branch}/{path}\<close>.
\<close>

definition branch_url :: "pystr \<Rightarrow> pystr \<Rightarrow> pystr \<Rightarrow> pystr \<Rightarrow> pystr" where
  "branch_url owner repo branch file_path =
     lit ''https://raw.githubusercontent.com/'' @ owner @ lit ''/'' @ repo @ lit ''/''
       @ branch @ lit ''/'' @ file_path"

text \<open>The value under a key of a returned dictionary.\<close>

definition get_item :: "py_error + pyval \<Rightarrow> pystr \<Rightarrow> pyval option" where
  "get_item r k = (case r of Inr (PDict kvs) \<Rightarrow> map_of kvs k | _ \<Rightarrow> None)"

text \<open>
  The three kinds of line: blank after trimming whitespace; not blank and, trimmed,
  starting with one of the comment prefixes; and the rest, the code lines.
\<close>

definition comment_prefixes :: "pystr list" where
  "comment_prefixes = [lit ''//'', lit ''#'', lit ''/*'', lit ''*'']"

definition is_blank_line :: "pystr \<Rightarrow> bool" where
  "is_blank_line l = (strip l = [])"

definition is_comment_line :: "pystr \<Rightarrow> bool" where
  "is_comment_line l = (strip l \<noteq> [] \<and> list_ex (\<lambda>p. prefix p (strip l)) comment_prefixes)"

definition is_code_line :: "pystr \<Rightarrow> bool" where
  "is_code_line l = (strip l \<noteq> [] \<and> \<not> list_ex (\<lambda>p. prefix p (strip l)) comment_prefixes)"

text \<open>\<open>sep.join(ls)\<close>, the inverse of splitting at \<open>sep\<close>.\<close>

fun str_join :: "nat \<Rightarrow> pystr list \<Rightarrow> pystr" where
  "str_join sep [] = []"
| "str_join sep [l] = l"
| "str_join sep (l # m # ls) = l @ sep # str_join sep (m # ls)"

text \<open>
  The number of positions of \<open>s\<close> at which the token \<open>sub\<close> occurs, and the tokens
  no two occurrences of which can overlap: no proper non-empty suffix of the token is a
  prefix of it.
\<close>

fun occurrences :: "pystr \<Rightarrow> pystr \<Rightarrow> nat" where
  "occurrences sub [] = 0"
| "occurrences sub (c # cs) = (if prefix sub (c # cs) then 1 else 0) + occurrences sub cs"

definition unbordered :: "pystr \<Rightarrow> bool" where
  "unbordered sub = list_all (\<lambda>j. \<not> prefix (drop j sub) sub) [1 ..< length sub]"

text \<open>
  The tool function that the dispatcher enters for a tool name and parsed arguments, if
  any: none when the keyword call fails or the name is neither tool.
\<close>

definition dispatched :: "pystr \<Rightarrow> pyval \<Rightarrow> tool_run list" where
  "dispatched tool_name tool_input =
     (if tool_name = lit ''fetch_github_file'' then
        (case bind_kwargs [lit ''owner'', lit ''repo'', lit ''file_path''] tool_input of
           Inl err \<Rightarrow> []
         | Inr arg \<Rightarrow>
             [FetchGithubFile (arg (lit ''owner'')) (arg (lit ''repo'')) (arg (lit ''file_path''))])
      else if tool_name = lit ''analyze_code_quality'' then
        (case bind_kwargs [lit ''file_path''] tool_input of
           Inl err \<Rightarrow> []
         | Inr arg \<Rightarrow> [AnalyzeCodeQuality (arg (lit ''file_path''))])
      else [])"

text \<open>
  The world in which the model's answers hold the one message given, and everything
  else is as in \<open>e\<close>.
\<close>

definition answering :: "env \<Rightarrow> chat_message \<Rightarrow> env" where
  "answering e m = e\<lparr>chat_completions_create := (\<lambda>n messages. Inr [m])\<rparr>"

text \<open>
  The next \<open>n\<close> passes through the loop body each end with a tool result appended:
  none ends with a final answer or an exception.
\<close>

fun tool_rounds :: "env \<Rightarrow> nat \<Rightarrow> pyval list \<Rightarrow> state \<Rightarrow> bool" where
  "tool_rounds e 0 messages s = True"
| "tool_rounds e (Suc n) messages s =
     (case loop_body e messages s of
        Continue messages' s' \<Rightarrow> tool_rounds e n messages' s'
      | _ \<Rightarrow> False)"

section \<open>Example inputs\<close>

definition empty_state :: state where
  "empty_state = \<lparr>file_cache = Map.empty, http_log = [], model_calls = 0, tool_log = []\<rparr>"

definition core_js :: pystr where
  "core_js = lit ''src/core.js''"

definition jquery :: pystr where
  "jquery = lit ''jquery''"

text \<open>The text of the scenario for the count of declarations.\<close>

definition declarations_text :: pystr where
  "declarations_text = lit ''function foo(){} const x = 1; let y = 2;''"

text \<open>
  A file of ten lines: three blank (one of them holding only spaces), two comments
  starting with \<open>//\<close> (one of them indented) and five lines of code.
\<close>

definition ten_lines :: pystr where
  "ten_lines =
     str_join newline
       [lit ''// sum of two numbers'',
        lit ''function add(a, b) {'',
        lit ''  return a + b;'',
        lit ''}'',
        lit '''',
        lit ''  // usage'',
        lit ''   '',
        lit ''const x = add(1, 2);'',
        lit ''let y = x;'',
        lit '''']"

text \<open>
  A server on which \<open>src/core.js\<close> of \<open>jquery/jquery\<close> exists on the branch
  \<open>master\<close> only, and one on which it exists on \<open>main\<close>; every other URL answers 404.
\<close>

definition master_only :: "nat \<Rightarrow> pystr \<Rightarrow> py_error + response" where
  "master_only n url =
     (if url = branch_url jquery jquery (lit ''master'') core_js
      then Inr \<lparr>status_code = 200, resp_text = ten_lines\<rparr>
      else Inr \<lparr>status_code = 404, resp_text = lit ''404: Not Found''\<rparr>)"

definition on_main :: "nat \<Rightarrow> pystr \<Rightarrow> py_error + response" where
  "on_main n url =
     (if url = branch_url jquery jquery (lit ''main'') core_js
      then Inr \<lparr>status_code = 200, resp_text = declarations_text\<rparr>
      else Inr \<lparr>status_code = 404, resp_text = lit ''404: Not Found''\<rparr>)"

text \<open>
  \<open>json.loads\<close> and \<open>json.dumps\<close> on the strings and values of the examples below;
  \<open>example_loads\<close> raises on every other string, among them the truncated object
  \<open>{"file_path":\<close>, and \<open>example_dumps\<close> is arbitrary on every other value.
\<close>

definition example_loads :: "pystr \<Rightarrow> py_error + pyval" where
  \<open>example_loads s =
     (if s = lit ''{}'' then Inr (PDict [])
      else if s = lit ''{"file_path": "src/core.js"}''
        then Inr (PDict [(lit ''file_path'', PStr core_js)])
      else if s = lit ''{"owner": "jquery", "repo": "jquery", "file_path": "src/core.js"}''
        then Inr (PDict [(lit ''owner'', PStr jquery), (lit ''repo'', PStr jquery),
                         (lit ''file_path'', PStr core_js)])
      else Inl JSONDecodeError)\<close>

definition example_dumps :: "pyval \<Rightarrow> pystr" where
  \<open>example_dumps v =
     (if v = PNone then lit ''null''
      else if v = PDict [(lit ''error'',
                          PStr (lit ''File not fetched yet. Call fetch_github_file first.''))]
        then lit ''{"error": "File not fetched yet. Call fetch_github_file first."}''
      else if v = PDict [(lit ''success'', PBool False),
                         (lit ''error'', PStr (lit ''File not found''))]
        then lit ''{"success": false, "error": "File not found"}''
      else [])\<close>

text \<open>
  Requests of the model: the two tools, a tool that does not exist, and a request whose
  argument string is cut off.
\<close>

definition analyze_request :: tool_call where
  \<open>analyze_request =
     \<lparr>call_id = lit ''call_1'', function_name = lit ''analyze_code_quality'',
      function_arguments = lit ''{"file_path": "src/core.js"}''\<rparr>\<close>

definition fetch_request :: tool_call where
  \<open>fetch_request =
     \<lparr>call_id = lit ''call_2'', function_name = lit ''fetch_github_file'',
      function_arguments =
        lit ''{"owner": "jquery", "repo": "jquery", "file_path": "src/core.js"}''\<rparr>\<close>

definition unknown_request :: tool_call where
  \<open>unknown_request =
     \<lparr>call_id = lit ''call_3'', function_name = lit ''run_linter'',
      function_arguments = lit ''{}''\<rparr>\<close>

definition truncated_request :: tool_call where
  \<open>truncated_request =
     \<lparr>call_id = lit ''call_4'', function_name = lit ''analyze_code_quality'',
      function_arguments = lit ''{"file_path":''\<rparr>\<close>

text \<open>
  The world in which every answer of the model requests the tools \<open>calls\<close>, with a
  given server behind \<open>requests.get\<close>.
\<close>

definition requesting ::
  "tool_call list \<Rightarrow> (nat \<Rightarrow> pystr \<Rightarrow> py_error + response) \<Rightarrow> env" where
  "requesting calls server =
     \<lparr>requests_get = server,
      chat_completions_create = (\<lambda>n messages. Inr [\<lparr>content = None, tool_calls = Some calls\<rparr>]),
      json_loads = example_loads,
      json_dumps = example_dumps\<rparr>"

text \<open>The state in which \<open>src/core.js\<close> has been fetched with the text \<open>code\<close>.\<close>

definition cached :: "pystr \<Rightarrow> state" where
  "cached code = empty_state\<lparr>file_cache := [core_js \<mapsto> code]\<rparr>"

section \<open>Basic facts\<close>

declare str_count.simps [simp del]

declare run_loop.simps [simp del]

lemma lit_Nil [simp]: "lit [] = []"
  by (simp add: lit_def)

lemma lit_eq_Nil [simp]: "lit a = [] \<longleftrightarrow> a = []"
  by (simp add: lit_def)

lemma lit_eq_iff [simp]: "lit a = lit b \<longleftrightarrow> a = b"
  by (simp add: lit_def inj_map_eq_map inj_of_char)

lemma main_url:
  "lit ''https://raw.githubusercontent.com/'' @ owner @ lit ''/'' @ repo
     @ lit ''/main/'' @ file_path = branch_url owner repo (lit ''main'') file_path"
  by (simp add: branch_url_def lit_def)

lemma master_url:
  "lit ''https://raw.githubusercontent.com/'' @ owner @ lit ''/'' @ repo
     @ lit ''/master/'' @ file_path = branch_url owner repo (lit ''master'') file_path"
  by (simp add: branch_url_def lit_def)

lemma main_not_master:
  "branch_url owner repo (lit ''main'') file_path
     \<noteq> branch_url owner repo (lit ''master'') file_path"
  by (simp add: branch_url_def lit_def)

subsection \<open>Splitting into lines\<close>

lemma str_split_not_Nil [simp]: "str_split s sep \<noteq> []"
  by (induction s) (auto split: list.split)

lemma length_str_split: "length (str_split s sep) = Suc (count_list s sep)"
  by (induction s) (auto split: list.split)

lemma str_join_Cons: "ls \<noteq> [] \<Longrightarrow> str_join sep (l # ls) = l @ sep # str_join sep ls"
  by (cases ls) simp_all

lemma str_join_split: "str_join sep (str_split s sep) = s"
proof (induction s)
  case Nil
  show ?case by simp
next
  case (Cons c cs)
  show ?case
  proof (cases "c = sep")
    case True
    with Cons show ?thesis by (simp add: str_join_Cons)
  next
    case False
    obtain l ls where pieces: "str_split cs sep = l # ls"
      by (cases "str_split cs sep") simp_all
    with Cons have "str_join sep (l # ls) = cs" by simp
    then have "str_join sep ((c # l) # ls) = c # cs"
      by (cases ls) simp_all
    with False pieces show ?thesis by simp
  qed
qed

lemma sep_notin_split: "l \<in> set (str_split s sep) \<Longrightarrow> sep \<notin> set l"
  by (induction s arbitrary: l) (auto split: if_splits list.splits)

lemma line_kinds:
  "length (filter is_blank_line ls) + length (filter is_comment_line ls)
     + length (filter is_code_line ls) = length ls"
  by (induction ls) (auto simp add: is_blank_line_def is_comment_line_def is_code_line_def)

lemma source_code_line:
  "(strip l \<noteq> [] \<and> \<not> startswith (strip l) [lit ''//'', lit ''#'', lit ''/*'', lit ''*''])
     = is_code_line l"
  by (simp add: is_code_line_def startswith_def comment_prefixes_def)

lemma analyze_cached:
  "file_cache s file_path = Some code \<Longrightarrow>
   fst (analyze_code_quality file_path s) =
     Inr (PDict [(lit ''file_path'', PStr file_path),
                 (lit ''total_lines'', PInt (int (length (str_split code newline)))),
                 (lit ''code_lines'',
                  PInt (int (length (filter is_code_line (str_split code newline))))),
                 (lit ''estimated_functions'',
                  PInt (int (str_count code (lit ''function '') + str_count code (lit ''def '')
                    + str_count code (lit ''const '') + str_count code (lit ''let '')))),
                 (lit ''note'', PStr (lit ''Metrics calculated from cached file.''))])"
  by (simp add: analyze_code_quality_def Let_def source_code_line)

lemma split_ten_lines:
  "str_split ten_lines newline =
     [lit ''// sum of two numbers'',
      lit ''function add(a, b) {'',
      lit ''  return a + b;'',
      lit ''}'',
      [],
      lit ''  // usage'',
      lit ''   '',
      lit ''const x = add(1, 2);'',
      lit ''let y = x;'',
      []]"
  by (simp add: ten_lines_def lit_def newline_def)

lemma blank_ten_lines:
  "length (filter is_blank_line (str_split ten_lines newline)) = 3"
  unfolding split_ten_lines
  by (simp add: is_blank_line_def strip_def is_space_def lit_def)

lemma comment_ten_lines:
  "length (filter is_comment_line (str_split ten_lines newline)) = 2"
  unfolding split_ten_lines
  by (simp add: is_comment_line_def comment_prefixes_def strip_def is_space_def lit_def)

subsection \<open>Counting a token\<close>

lemma occurrences_drop:
  "j < length s \<Longrightarrow>
   occurrences sub (drop j s) =
     (if prefix sub (drop j s) then 1 else 0) + occurrences sub (drop (Suc j) s)"
  by (simp flip: Cons_nth_drop_Suc)

lemma no_overlap:
  assumes "unbordered sub" and "prefix sub s" and "0 < j" and "j < length sub"
  shows "\<not> prefix sub (drop j s)"
proof
  assume occ: "prefix sub (drop j s)"
  from assms(2) obtain r where s: "s = sub @ r"
    by (auto simp add: prefix_def)
  with assms(4) have "drop j s = drop j sub @ r" by simp
  with occ have "prefix sub (drop j sub @ r)" by simp
  then have "prefix sub (drop j sub) \<or> (\<exists>us. sub = drop j sub @ us \<and> prefix us r)"
    by (simp add: prefix_append)
  moreover have "\<not> prefix sub (drop j sub)"
    using assms(3,4) by (auto dest: prefix_length_le)
  ultimately obtain us where "sub = drop j sub @ us" by blast
  then have "prefix (drop j sub) sub"
    by (metis prefixI)
  moreover from assms(1,3,4) have "\<not> prefix (drop j sub) sub"
    by (simp add: unbordered_def list_all_iff)
  ultimately show False by blast
qed

lemma occurrences_skip:
  assumes "unbordered sub" and "prefix sub s"
  shows "1 \<le> k \<Longrightarrow> k \<le> length sub \<Longrightarrow>
         occurrences sub (drop 1 s) = occurrences sub (drop k s)"
proof (induction k)
  case 0
  then show ?case by simp
next
  case (Suc k)
  show ?case
  proof (cases "k = 0")
    case True
    then show ?thesis by simp
  next
    case False
    with Suc have IH: "occurrences sub (drop 1 s) = occurrences sub (drop k s)" by simp
    from assms(2) have "length sub \<le> length s" by (rule prefix_length_le)
    with Suc.prems have "k < length s" by simp
    moreover have "\<not> prefix sub (drop k s)"
      using no_overlap [OF assms] False Suc.prems by simp
    ultimately have "occurrences sub (drop k s) = occurrences sub (drop (Suc k) s)"
      by (simp add: occurrences_drop)
    with IH show ?thesis by simp
  qed
qed

lemma str_count_occurrences:
  "unbordered sub \<Longrightarrow> sub \<noteq> [] \<Longrightarrow> str_count s sub = occurrences sub s"
proof (induction s sub rule: str_count.induct)
  case (1 s sub)
  show ?case
  proof (cases s)
    case Nil
    with 1 show ?thesis by (simp add: str_count.simps)
  next
    case (Cons c cs)
    then have ne: "s \<noteq> []" by simp
    show ?thesis
    proof (cases "prefix sub s")
      case True
      have "str_count s sub = Suc (str_count (drop (length sub) s) sub)"
        using "1.prems"(2) ne True by (simp add: str_count.simps [of s sub])
      moreover have "str_count (drop (length sub) s) sub
                       = occurrences sub (drop (length sub) s)"
        using "1.IH"(1) "1.prems" ne True by simp
      moreover have "occurrences sub (drop 1 s) = occurrences sub (drop (length sub) s)"
        using occurrences_skip [OF "1.prems"(1) True, of "length sub"] "1.prems"(2)
        by (simp add: Suc_le_eq)
      moreover from True Cons have "occurrences sub s = Suc (occurrences sub (drop 1 s))"
        by simp
      ultimately show ?thesis by simp
    next
      case False
      have "str_count s sub = str_count (tl s) sub"
        using "1.prems"(2) ne False by (simp add: str_count.simps [of s sub])
      moreover have "str_count (tl s) sub = occurrences sub (tl s)"
        using "1.IH"(2) "1.prems" ne False by simp
      ultimately show ?thesis using False Cons by simp
    qed
  qed
qed

lemma tokens_unbordered:
  "unbordered (lit ''function '')" "unbordered (lit ''def '')"
  "unbordered (lit ''const '')" "unbordered (lit ''let '')"
  by (simp_all add: unbordered_def lit_def upt_rec)

lemma tokens_count:
  "str_count code (lit ''function '') = occurrences (lit ''function '') code"
  "str_count code (lit ''def '') = occurrences (lit ''def '') code"
  "str_count code (lit ''const '') = occurrences (lit ''const '') code"
  "str_count code (lit ''let '') = occurrences (lit ''let '') code"
  by (simp_all add: str_count_occurrences tokens_unbordered)

lemma declarations_occurrences:
  "occurrences (lit ''function '') declarations_text = 1"
  "occurrences (lit ''def '') declarations_text = 0"
  "occurrences (lit ''const '') declarations_text = 1"
  "occurrences (lit ''let '') declarations_text = 1"
  by (simp_all add: declarations_text_def lit_def)

section \<open>The metrics tool\<close>

text \<open>
  Claim C1. For a path that is not a key of the cache, \<open>analyze_code_quality\<close> returns
  (it raises nothing) the dictionary whose only entry is \<open>error\<close>, with the message
  that the file must be fetched first; the result holds no metric, and the state is as
  before.
\<close>

theorem analyze_unfetched:
  "file_cache s file_path = None \<Longrightarrow>
   analyze_code_quality file_path s =
     (Inr (PDict [(lit ''error'',
                   PStr (lit ''File not fetched yet. Call fetch_github_file first.''))]),
      s)"
  by (simp add: analyze_code_quality_def)

theorem analyze_unfetched_witness:
  "file_cache empty_state core_js = None \<and>
   analyze_code_quality core_js empty_state =
     (Inr (PDict [(lit ''error'',
                   PStr (lit ''File not fetched yet. Call fetch_github_file first.''))]),
      empty_state)"
  using analyze_unfetched [of empty_state core_js] by (simp add: empty_state_def)

text \<open>
  Claim C10. \<open>analyze_code_quality\<close> leaves the state as it is, on the error branch and
  on the success branch; in particular the cache afterwards is the cache before.
\<close>

theorem analyze_keeps_cache:
  "snd (analyze_code_quality file_path s) = s
   \<and> file_cache (snd (analyze_code_quality file_path s)) = file_cache s"
  by (simp add: analyze_code_quality_def Let_def split: option.split)

theorem analyze_keeps_cache_witness:
  "snd (analyze_code_quality core_js (cached ten_lines)) = cached ten_lines
   \<and> file_cache (snd (analyze_code_quality core_js (cached ten_lines))) core_js = Some ten_lines
   \<and> snd (analyze_code_quality core_js empty_state) = empty_state
   \<and> file_cache (snd (analyze_code_quality core_js empty_state)) core_js = None"
  using analyze_keeps_cache [of core_js "cached ten_lines"]
    analyze_keeps_cache [of core_js empty_state]
  by (simp add: cached_def empty_state_def)

text \<open>
  Claim C7. For a cached text, \<open>total_lines\<close> is the number of newline-separated lines
  (one more than the number of newlines; joining the lines with newlines gives the text
  back), and \<open>code_lines\<close> is the number of those lines that are not blank after
  trimming and do not, trimmed, start with \<open>//\<close>, \<open>#\<close>, \<open>/*\<close> or \<open>*\<close>. So for a text
  of 10 lines of which 3 are blank and 2 are comment lines (as when both start with
  \<open>//\<close>), the result has \<open>total_lines = 10\<close> and \<open>code_lines = 5\<close>.
\<close>

theorem analyze_line_counts:
  assumes "file_cache s file_path = Some code"
  shows "get_item (fst (analyze_code_quality file_path s)) (lit ''total_lines'')
           = Some (PInt (int (Suc (count_list code newline))))
       \<and> get_item (fst (analyze_code_quality file_path s)) (lit ''code_lines'')
           = Some (PInt (int (length (filter is_code_line (str_split code newline)))))
       \<and> length (str_split code newline) = Suc (count_list code newline)
       \<and> str_join newline (str_split code newline) = code
       \<and> (length (str_split code newline) = 10
            \<and> length (filter is_blank_line (str_split code newline)) = 3
            \<and> length (filter is_comment_line (str_split code newline)) = 2
          \<longrightarrow> get_item (fst (analyze_code_quality file_path s)) (lit ''total_lines'')
                = Some (PInt 10)
            \<and> get_item (fst (analyze_code_quality file_path s)) (lit ''code_lines'')
                = Some (PInt 5))"
proof -
  let ?ls = "str_split code newline"
  have total: "get_item (fst (analyze_code_quality file_path s)) (lit ''total_lines'')
                 = Some (PInt (int (length ?ls)))"
    by (simp add: analyze_cached [OF assms] get_item_def)
  have code: "get_item (fst (analyze_code_quality file_path s)) (lit ''code_lines'')
                 = Some (PInt (int (length (filter is_code_line ?ls))))"
    by (simp add: analyze_cached [OF assms] get_item_def)
  have kinds: "length (filter is_blank_line ?ls) + length (filter is_comment_line ?ls)
                 + length (filter is_code_line ?ls) = length ?ls"
    by (rule line_kinds)
  have five: "length (filter is_code_line ?ls) = 5"
    if "length ?ls = 10" "length (filter is_blank_line ?ls) = 3"
       "length (filter is_comment_line ?ls) = 2"
    using kinds that by arith
  show ?thesis
    using total code five by (simp add: length_str_split str_join_split)
qed

theorem analyze_line_counts_witness:
  "file_cache (cached ten_lines) core_js = Some ten_lines
   \<and> length (str_split ten_lines newline) = 10
   \<and> length (filter is_blank_line (str_split ten_lines newline)) = 3
   \<and> length (filter is_comment_line (str_split ten_lines newline)) = 2
   \<and> get_item (fst (analyze_code_quality core_js (cached ten_lines))) (lit ''total_lines'')
       = Some (PInt 10)
   \<and> get_item (fst (analyze_code_quality core_js (cached ten_lines))) (lit ''code_lines'')
       = Some (PInt 5)"
proof -
  have c: "file_cache (cached ten_lines) core_js = Some ten_lines"
    by (simp add: cached_def)
  have n: "length (str_split ten_lines newline) = 10"
    by (simp add: split_ten_lines)
  have "length (str_split ten_lines newline) = 10
          \<and> length (filter is_blank_line (str_split ten_lines newline)) = 3
          \<and> length (filter is_comment_line (str_split ten_lines newline)) = 2
        \<longrightarrow> get_item (fst (analyze_code_quality core_js (cached ten_lines))) (lit ''total_lines'')
              = Some (PInt 10)
          \<and> get_item (fst (analyze_code_quality core_js (cached ten_lines))) (lit ''code_lines'')
              = Some (PInt 5)"
    using analyze_line_counts [OF c] by blast
  with c n blank_ten_lines comment_ten_lines show ?thesis by blast
qed

text \<open>
  Claim C8. For a cached text, \<open>estimated_functions\<close> is the sum of the counts that
  \<open>str.count\<close> gives for the four tokens \<open>function \<close>, \<open>def \<close>, \<open>const \<close>
  and \<open>let \<close> (each followed by a space): the non-overlapping occurrences, which for
  each of these tokens are all the positions at which the token occurs. For the text
  \<open>function foo(){} const x = 1; let y = 2;\<close> the result has
  \<open>estimated_functions = 3\<close>.
\<close>

theorem analyze_estimated_functions:
  assumes "file_cache s file_path = Some code"
  shows "get_item (fst (analyze_code_quality file_path s)) (lit ''estimated_functions'')
           = Some (PInt (int (str_count code (lit ''function '') + str_count code (lit ''def '')
               + str_count code (lit ''const '') + str_count code (lit ''let ''))))
       \<and> str_count code (lit ''function '') = occurrences (lit ''function '') code
       \<and> str_count code (lit ''def '') = occurrences (lit ''def '') code
       \<and> str_count code (lit ''const '') = occurrences (lit ''const '') code
       \<and> str_count code (lit ''let '') = occurrences (lit ''let '') code
       \<and> (code = declarations_text \<longrightarrow>
            get_item (fst (analyze_code_quality file_path s)) (lit ''estimated_functions'')
              = Some (PInt 3))"
proof -
  have field: "get_item (fst (analyze_code_quality file_path s)) (lit ''estimated_functions'')
           = Some (PInt (int (str_count code (lit ''function '') + str_count code (lit ''def '')
               + str_count code (lit ''const '') + str_count code (lit ''let ''))))"
    by (simp add: analyze_cached [OF assms] get_item_def)
  have three: "str_count declarations_text (lit ''function '')
      + str_count declarations_text (lit ''def '')
      + str_count declarations_text (lit ''const '')
      + str_count declarations_text (lit ''let '') = 3"
    by (simp add: tokens_count declarations_occurrences)
  show ?thesis
    using field three by (auto simp add: tokens_count)
qed

theorem analyze_estimated_functions_witness:
  "file_cache (cached declarations_text) core_js = Some declarations_text
   \<and> get_item (fst (analyze_code_quality core_js (cached declarations_text)))
       (lit ''estimated_functions'') = Some (PInt 3)"
proof -
  have c: "file_cache (cached declarations_text) core_js = Some declarations_text"
    by (simp add: cached_def)
  have "declarations_text = declarations_text \<longrightarrow>
          get_item (fst (analyze_code_quality core_js (cached declarations_text)))
            (lit ''estimated_functions'') = Some (PInt 3)"
    using analyze_estimated_functions [OF c] by blast
  with c show ?thesis by blast
qed

section \<open>The fetch tool\<close>

text \<open>
  Claim C2. When a branch URL that \<open>fetch_github_file\<close> asks for answers with status
  200 and a body (the \<open>main\<close> URL, asked first, or the \<open>master\<close> URL, asked after
  \<open>main\<close> answered with another status), the call returns the dictionary
  \<open>{success: True, file_path: path, size: len(body)}\<close>, \<open>len\<close> counting the code points
  of the body, and afterwards the cache holds exactly the body under the path.
\<close>

theorem fetch_success:
  assumes "(requests_get e (length (http_log s)) (branch_url owner repo (lit ''main'') file_path)
              = Inr r \<and> status_code r = 200)
         \<or> (\<exists>r0. requests_get e (length (http_log s))
                    (branch_url owner repo (lit ''main'') file_path) = Inr r0
                \<and> status_code r0 \<noteq> 200
                \<and> requests_get e (Suc (length (http_log s)))
                    (branch_url owner repo (lit ''master'') file_path) = Inr r
                \<and> status_code r = 200)"
  shows "fst (fetch_github_file e owner repo file_path s) =
           Inr (PDict [(lit ''success'', PBool True),
                       (lit ''file_path'', PStr file_path),
                       (lit ''size'', PInt (int (length (resp_text r))))])
       \<and> file_cache (snd (fetch_github_file e owner repo file_path s)) file_path
           = Some (resp_text r)"
  using assms
  by (auto simp add: fetch_github_file_def http_get_def main_url master_url Let_def)

theorem fetch_success_witness:
  "requests_get (requesting [] on_main) 0 (branch_url jquery jquery (lit ''main'') core_js)
     = Inr \<lparr>status_code = 200, resp_text = declarations_text\<rparr>
   \<and> fst (fetch_github_file (requesting [] on_main) jquery jquery core_js empty_state) =
       Inr (PDict [(lit ''success'', PBool True), (lit ''file_path'', PStr core_js),
                   (lit ''size'', PInt 40)])
   \<and> file_cache (snd (fetch_github_file (requesting [] on_main) jquery jquery core_js
         empty_state)) core_js = Some declarations_text
   \<and> requests_get (requesting [] master_only) 0 (branch_url jquery jquery (lit ''main'') core_js)
       = Inr \<lparr>status_code = 404, resp_text = lit ''404: Not Found''\<rparr>
   \<and> requests_get (requesting [] master_only) 1
         (branch_url jquery jquery (lit ''master'') core_js)
       = Inr \<lparr>status_code = 200, resp_text = ten_lines\<rparr>
   \<and> fst (fetch_github_file (requesting [] master_only) jquery jquery core_js empty_state) =
       Inr (PDict [(lit ''success'', PBool True), (lit ''file_path'', PStr core_js),
                   (lit ''size'', PInt (int (length ten_lines)))])
   \<and> file_cache (snd (fetch_github_file (requesting [] master_only) jquery jquery core_js
         empty_state)) core_js = Some ten_lines"
proof -
  have a: "requests_get (requesting [] on_main) 0
             (branch_url jquery jquery (lit ''main'') core_js)
           = Inr \<lparr>status_code = 200, resp_text = declarations_text\<rparr>"
    by (simp add: requesting_def on_main_def)
  have b0: "requests_get (requesting [] master_only) 0
              (branch_url jquery jquery (lit ''main'') core_js)
            = Inr \<lparr>status_code = 404, resp_text = lit ''404: Not Found''\<rparr>"
    by (simp add: requesting_def master_only_def main_not_master)
  have b1: "requests_get (requesting [] master_only) 1
              (branch_url jquery jquery (lit ''master'') core_js)
            = Inr \<lparr>status_code = 200, resp_text = ten_lines\<rparr>"
    by (simp add: requesting_def master_only_def)
  have len: "length declarations_text = 40"
    by (simp add: declarations_text_def lit_def)
  have e: "http_log empty_state = []"
    by (simp add: empty_state_def)
  show ?thesis
    using fetch_success [of "requesting [] on_main" empty_state jquery jquery core_js
        "\<lparr>status_code = 200, resp_text = declarations_text\<rparr>"]
      fetch_success [of "requesting [] master_only" empty_state jquery jquery core_js
        "\<lparr>status_code = 200, resp_text = ten_lines\<rparr>"]
      a b0 b1 len e
    by simp
qed

text \<open>
  Claim C3. \<open>fetch_github_file\<close> asks for the \<open>main\<close> URL first and for the \<open>master\<close>
  URL second. When both answer with a status other than 200, it returns
  \<open>{success: False, error: "File not found"}\<close>, the two URLs are what it has requested,
  in this order, and it leaves no cache entry: the cache is as before, so a path with no
  entry before the call has none after it.
\<close>

theorem fetch_not_found:
  assumes "requests_get e (length (http_log s)) (branch_url owner repo (lit ''main'') file_path)
             = Inr r1"
      and "status_code r1 \<noteq> 200"
      and "requests_get e (Suc (length (http_log s)))
             (branch_url owner repo (lit ''master'') file_path) = Inr r2"
      and "status_code r2 \<noteq> 200"
  shows "fetch_github_file e owner repo file_path s =
           (Inr (PDict [(lit ''success'', PBool False),
                        (lit ''error'', PStr (lit ''File not found''))]),
            s\<lparr>http_log := http_log s @ [branch_url owner repo (lit ''main'') file_path,
                                        branch_url owner repo (lit ''master'') file_path]\<rparr>)
       \<and> file_cache (snd (fetch_github_file e owner repo file_path s)) = file_cache s
       \<and> (file_cache s file_path = None \<longrightarrow>
            file_cache (snd (fetch_github_file e owner repo file_path s)) file_path = None)"
  using assms
  by (simp add: fetch_github_file_def http_get_def main_url master_url Let_def)

theorem fetch_not_found_witness:
  "requests_get (requesting [] on_main) 0
       (branch_url jquery jquery (lit ''main'') (lit ''README.md''))
     = Inr \<lparr>status_code = 404, resp_text = lit ''404: Not Found''\<rparr>
   \<and> requests_get (requesting [] on_main) 1
        (branch_url jquery jquery (lit ''master'') (lit ''README.md''))
     = Inr \<lparr>status_code = 404, resp_text = lit ''404: Not Found''\<rparr>
   \<and> fetch_github_file (requesting [] on_main) jquery jquery (lit ''README.md'') empty_state =
       (Inr (PDict [(lit ''success'', PBool False),
                    (lit ''error'', PStr (lit ''File not found''))]),
        empty_state\<lparr>http_log :=
          [branch_url jquery jquery (lit ''main'') (lit ''README.md''),
           branch_url jquery jquery (lit ''master'') (lit ''README.md'')]\<rparr>)
   \<and> file_cache (snd (fetch_github_file (requesting [] on_main) jquery jquery
         (lit ''README.md'') empty_state)) (lit ''README.md'') = None"
proof -
  have a: "requests_get (requesting [] on_main) 0
             (branch_url jquery jquery (lit ''main'') (lit ''README.md''))
           = Inr \<lparr>status_code = 404, resp_text = lit ''404: Not Found''\<rparr>"
    by (simp add: requesting_def on_main_def branch_url_def core_js_def)
  have b: "requests_get (requesting [] on_main) 1
             (branch_url jquery jquery (lit ''master'') (lit ''README.md''))
           = Inr \<lparr>status_code = 404, resp_text = lit ''404: Not Found''\<rparr>"
    by (simp add: requesting_def on_main_def branch_url_def core_js_def lit_def)
  have e: "http_log empty_state = []" "file_cache empty_state (lit ''README.md'') = None"
    by (simp_all add: empty_state_def)
  show ?thesis
    using fetch_not_found [of "requesting [] on_main" empty_state jquery jquery
        "lit ''README.md''" "\<lparr>status_code = 404, resp_text = lit ''404: Not Found''\<rparr>"
        "\<lparr>status_code = 404, resp_text = lit ''404: Not Found''\<rparr>"]
      a b e
    by simp
qed

section \<open>The dispatcher's fall-through\<close>

text \<open>
  Claim C9. For a tool name other than \<open>fetch_github_file\<close> and
  \<open>analyze_code_quality\<close>, and any argument value, \<open>process_tool_call\<close> returns \<open>None\<close>
  and the state is as before: no tool function is entered, nothing is requested over
  HTTP, and the cache is unchanged.
\<close>

theorem process_tool_call_unknown:
  "tool_name \<noteq> lit ''fetch_github_file'' \<Longrightarrow> tool_name \<noteq> lit ''analyze_code_quality'' \<Longrightarrow>
   process_tool_call e tool_name tool_input s = (Inr PNone, s)"
  by (simp add: process_tool_call_def)

theorem process_tool_call_unknown_witness:
  "lit ''run_linter'' \<noteq> lit ''fetch_github_file''
   \<and> lit ''run_linter'' \<noteq> lit ''analyze_code_quality''
   \<and> process_tool_call (requesting [] on_main) (lit ''run_linter'')
        (PDict [(lit ''file_path'', PStr core_js)]) empty_state = (Inr PNone, empty_state)"
  using process_tool_call_unknown [of "lit ''run_linter''" "requesting [] on_main"
      "PDict [(lit ''file_path'', PStr core_js)]" empty_state]
  by simp

section \<open>Facts about the agent loop\<close>

lemma analyze_state: "snd (analyze_code_quality file_path s) = s"
  by (simp add: analyze_code_quality_def Let_def split: option.split)

lemma fetch_tool_log:
  "tool_log (snd (fetch_github_file e owner repo file_path s)) = tool_log s"
  by (simp add: fetch_github_file_def http_get_def Let_def split: sum.split)

lemma fetch_model_calls:
  "model_calls (snd (fetch_github_file e owner repo file_path s)) = model_calls s"
  by (simp add: fetch_github_file_def http_get_def Let_def split: sum.split)

lemma process_tool_log:
  "tool_log (snd (process_tool_call e tool_name tool_input s))
     = tool_log s @ dispatched tool_name tool_input"
  by (simp add: process_tool_call_def dispatched_def Let_def fetch_tool_log analyze_state
      split: sum.split pyval.split)

lemma process_model_calls:
  "model_calls (snd (process_tool_call e tool_name tool_input s)) = model_calls s"
  by (simp add: process_tool_call_def Let_def fetch_model_calls analyze_state
      split: sum.split pyval.split)

lemma length_dispatched: "length (dispatched tool_name tool_input) \<le> 1"
  by (simp add: dispatched_def split: sum.split)

lemma process_model_calls_eq:
  "process_tool_call e tool_name tool_input s = (r, s') \<Longrightarrow> model_calls s' = model_calls s"
  using process_model_calls [of e tool_name tool_input s] by simp

lemma process_tool_log_eq:
  "process_tool_call e tool_name tool_input s = (r, s') \<Longrightarrow>
   tool_log s' = tool_log s @ dispatched tool_name tool_input"
  using process_tool_log [of e tool_name tool_input s] by simp

lemma loop_body_model_calls:
  "model_calls (state_of (loop_body e messages s)) = Suc (model_calls s)"
  by (auto simp add: loop_body_def Let_def dest: process_model_calls_eq
      split: sum.split list.split option.split prod.split)

lemma loop_body_tool_log:
  assumes "chat_completions_create e (model_calls s) messages = Inr (assistant_message # others)"
      and "tool_calls assistant_message = Some (tool_call # further)"
  shows "tool_log (state_of (loop_body e messages s)) =
           tool_log s @ (case json_loads e (function_arguments tool_call) of
                           Inl err \<Rightarrow> []
                         | Inr tool_args \<Rightarrow> dispatched (function_name tool_call) tool_args)"
  using assms
  by (auto simp add: loop_body_def Let_def dest: process_tool_log_eq
      split: sum.split prod.split)

lemma http_get_answering: "http_get (answering e m) url s = http_get e url s"
  by (simp add: http_get_def answering_def)

lemma fetch_answering:
  "fetch_github_file (answering e m) owner repo file_path s
     = fetch_github_file e owner repo file_path s"
  unfolding fetch_github_file_def http_get_answering by (rule refl)

lemma process_answering:
  "process_tool_call (answering e m) tool_name tool_input s
     = process_tool_call e tool_name tool_input s"
  unfolding process_tool_call_def fetch_answering by (rule refl)

lemma tool_entry_answering: "tool_entry (answering e m) tool_call result = tool_entry e tool_call result"
  by (simp add: tool_entry_def answering_def)

lemma loop_body_first:
  assumes "chat_completions_create e (model_calls s) messages = Inr (assistant_message # others)"
      and "tool_calls assistant_message = Some (tool_call # further)"
  shows "loop_body e messages s =
           loop_body (answering e (assistant_message\<lparr>tool_calls := Some [tool_call]\<rparr>))
             messages s"
proof -
  let ?m = "assistant_message\<lparr>tool_calls := Some [tool_call]\<rparr>"
  have "json_loads (answering e ?m) = json_loads e"
    "chat_completions_create (answering e ?m) (model_calls s) messages = Inr [?m]"
    by (simp_all add: answering_def)
  then show ?thesis
    unfolding loop_body_def process_answering tool_entry_answering
    using assms by simp
qed

lemma run_loop_calls:
  "model_calls (snd (run_loop e iteration messages s))
     \<le> model_calls s + (max_iterations - iteration)"
proof (induction e iteration messages s rule: run_loop.induct)
  case (1 e iteration messages s)
  show ?case
  proof (cases "iteration < max_iterations")
    case False
    then show ?thesis by (simp add: run_loop.simps [of e iteration])
  next
    case True
    have calls: "model_calls (state_of (loop_body e messages s)) = Suc (model_calls s)"
      by (rule loop_body_model_calls)
    show ?thesis
    proof (cases "loop_body e messages s")
      case (Continue messages' s')
      with True 1 have "model_calls (snd (run_loop e (iteration + 1) messages' s'))
                          \<le> model_calls s' + (max_iterations - (iteration + 1))"
        by simp
      moreover from calls Continue have "model_calls s' = Suc (model_calls s)" by simp
      ultimately show ?thesis
        using True Continue by (simp add: run_loop.simps [of e iteration])
    next
      case (Return final_response s')
      with calls True show ?thesis by (simp add: run_loop.simps [of e iteration])
    next
      case (Raise err s')
      with calls True show ?thesis by (simp add: run_loop.simps [of e iteration])
    qed
  qed
qed

lemma run_loop_rounds:
  "tool_rounds e (max_iterations - iteration) messages s \<Longrightarrow>
   fst (run_loop e iteration messages s) = Inr (Some (lit ''Max iterations reached''))
   \<and> model_calls (snd (run_loop e iteration messages s))
       = model_calls s + (max_iterations - iteration)"
proof (induction e iteration messages s rule: run_loop.induct)
  case (1 e iteration messages s)
  show ?case
  proof (cases "iteration < max_iterations")
    case False
    then show ?thesis by (simp add: run_loop.simps [of e iteration])
  next
    case True
    then have n: "max_iterations - iteration = Suc (max_iterations - (iteration + 1))"
      by simp
    from "1.prems" obtain messages' s' where
      step: "loop_body e messages s = Continue messages' s'"
      and rest: "tool_rounds e (max_iterations - (iteration + 1)) messages' s'"
      unfolding n by (auto split: step.splits)
    from "1.IH" [OF True step rest]
    have "fst (run_loop e (iteration + 1) messages' s')
            = Inr (Some (lit ''Max iterations reached''))"
      and "model_calls (snd (run_loop e (iteration + 1) messages' s'))
            = model_calls s' + (max_iterations - (iteration + 1))"
      by simp_all
    moreover have "model_calls s' = Suc (model_calls s)"
      using loop_body_model_calls [of e messages s] step by simp
    ultimately show ?thesis
      using True step by (simp add: run_loop.simps [of e iteration])
  qed
qed

lemma analyze_request_step:
  assumes "file_cache s core_js = None"
  shows "loop_body (requesting (analyze_request # further) server) messages s =
           Continue
             (messages @ [assistant_entry analyze_request,
                          tool_entry (requesting (analyze_request # further) server)
                            analyze_request
                            (PDict [(lit ''error'',
                               PStr (lit ''File not fetched yet. Call fetch_github_file first.''))])])
             (s\<lparr>model_calls := Suc (model_calls s),
                tool_log := tool_log s @ [AnalyzeCodeQuality (PStr core_js)]\<rparr>)"
  using assms
  by (simp add: loop_body_def requesting_def analyze_request_def example_loads_def
      process_tool_call_def bind_kwargs_def analyze_code_quality_def)

lemma analyze_request_rounds:
  "file_cache s core_js = None \<Longrightarrow>
   tool_rounds (requesting [analyze_request] server) n messages s"
  by (induction n arbitrary: messages s) (simp_all add: analyze_request_step)

section \<open>One pass through the loop\<close>

text \<open>
  Claim C6. In a pass through the loop body in which a tool call is made and returns
  (the model's message holds a requested invocation, \<open>json.loads\<close> parses the argument
  string of the first one, and the dispatcher returns a result), the transcript
  afterwards is the transcript before followed by exactly two messages: the assistant
  message whose \<open>tool_calls\<close> list holds the one honoured invocation, its argument
  string as the model sent it, and the tool message whose \<open>tool_call_id\<close> is the
  invocation's id and whose content is \<open>json.dumps\<close> of the result. No earlier entry
  is changed or removed.
\<close>

theorem tool_iteration_appends_two:
  assumes "chat_completions_create e (model_calls s) messages = Inr (assistant_message # others)"
      and "tool_calls assistant_message = Some (tool_call # further)"
      and "json_loads e (function_arguments tool_call) = Inr tool_args"
      and "process_tool_call e (function_name tool_call) tool_args
             (s\<lparr>model_calls := Suc (model_calls s)\<rparr>) = (Inr result, s2)"
  shows "loop_body e messages s =
           Continue
             (messages @
              [PDict [(lit ''role'', PStr (lit ''assistant'')),
                      (lit ''content'', PStr []),
                      (lit ''tool_calls'',
                       PList [PDict [(lit ''id'', PStr (call_id tool_call)),
                                     (lit ''type'', PStr (lit ''function'')),
                                     (lit ''function'',
                                      PDict [(lit ''name'', PStr (function_name tool_call)),
                                             (lit ''arguments'',
                                              PStr (function_arguments tool_call))])]])],
               PDict [(lit ''role'', PStr (lit ''tool'')),
                      (lit ''tool_call_id'', PStr (call_id tool_call)),
                      (lit ''content'', PStr (json_dumps e result))]])
             s2"
  using assms
  by (simp add: loop_body_def Let_def assistant_entry_def tool_entry_def)

theorem tool_iteration_appends_two_witness:
  \<open>chat_completions_create (requesting [analyze_request, fetch_request] on_main)
     (model_calls empty_state) (initial_messages (lit ''Analyze src/core.js''))
     = Inr [\<lparr>content = None, tool_calls = Some [analyze_request, fetch_request]\<rparr>]
   \<and> json_loads (requesting [analyze_request, fetch_request] on_main)
       (function_arguments analyze_request) = Inr (PDict [(lit ''file_path'', PStr core_js)])
   \<and> process_tool_call (requesting [analyze_request, fetch_request] on_main)
       (function_name analyze_request) (PDict [(lit ''file_path'', PStr core_js)])
       (empty_state\<lparr>model_calls := Suc (model_calls empty_state)\<rparr>)
     = (Inr (PDict [(lit ''error'',
                     PStr (lit ''File not fetched yet. Call fetch_github_file first.''))]),
        empty_state\<lparr>model_calls := 1, tool_log := [AnalyzeCodeQuality (PStr core_js)]\<rparr>)
   \<and> loop_body (requesting [analyze_request, fetch_request] on_main)
       (initial_messages (lit ''Analyze src/core.js'')) empty_state =
       Continue
         (initial_messages (lit ''Analyze src/core.js'') @
          [PDict [(lit ''role'', PStr (lit ''assistant'')),
                  (lit ''content'', PStr []),
                  (lit ''tool_calls'',
                   PList [PDict [(lit ''id'', PStr (lit ''call_1'')),
                                 (lit ''type'', PStr (lit ''function'')),
                                 (lit ''function'',
                                  PDict [(lit ''name'', PStr (lit ''analyze_code_quality'')),
                                         (lit ''arguments'',
                                          PStr (lit ''{"file_path": "src/core.js"}''))])]])],
           PDict [(lit ''role'', PStr (lit ''tool'')),
                  (lit ''tool_call_id'', PStr (lit ''call_1'')),
                  (lit ''content'',
                   PStr (lit ''{"error": "File not fetched yet. Call fetch_github_file first."}''))]])
         (empty_state\<lparr>model_calls := 1, tool_log := [AnalyzeCodeQuality (PStr core_js)]\<rparr>)\<close>
proof -
  let ?e = "requesting [analyze_request, fetch_request] on_main"
  let ?m = "initial_messages (lit ''Analyze src/core.js'')"
  have chat: "chat_completions_create ?e (model_calls empty_state) ?m
                = Inr (\<lparr>content = None, tool_calls = Some [analyze_request, fetch_request]\<rparr> # [])"
    by (simp add: requesting_def)
  have calls: "tool_calls \<lparr>content = None, tool_calls = Some [analyze_request, fetch_request]\<rparr>
                = Some (analyze_request # [fetch_request])"
    by simp
  have loads: "json_loads ?e (function_arguments analyze_request)
                = Inr (PDict [(lit ''file_path'', PStr core_js)])"
    by (simp add: requesting_def analyze_request_def example_loads_def)
  have tool: "process_tool_call ?e (function_name analyze_request)
                (PDict [(lit ''file_path'', PStr core_js)])
                (empty_state\<lparr>model_calls := Suc (model_calls empty_state)\<rparr>)
              = (Inr (PDict [(lit ''error'',
                     PStr (lit ''File not fetched yet. Call fetch_github_file first.''))]),
                 empty_state\<lparr>model_calls := 1,
                   tool_log := [AnalyzeCodeQuality (PStr core_js)]\<rparr>)"
    by (simp add: analyze_request_def process_tool_call_def bind_kwargs_def
        analyze_code_quality_def empty_state_def)
  show ?thesis
    using tool_iteration_appends_two [OF chat calls loads tool] chat loads tool
    by (simp add: analyze_request_def requesting_def example_dumps_def)
qed

text \<open>
  Claim C4, as stated, fails: a pass whose response requests a tool may execute none.
  When the first request names a tool that does not exist, the dispatcher returns
  \<open>None\<close>, the pass appends the two messages (the result is \<open>null\<close>) and no tool
  function has run, nothing was requested over HTTP; when the argument string of the
  first request is cut off, \<open>json.loads\<close> raises and the run ends with that exception.
\<close>

theorem one_tool_per_response_counterexample:
  "chat_completions_create (requesting [unknown_request, fetch_request] on_main)
     (model_calls empty_state) (initial_messages (lit ''Analyze src/core.js''))
     = Inr [\<lparr>content = None, tool_calls = Some [unknown_request, fetch_request]\<rparr>]
   \<and> loop_body (requesting [unknown_request, fetch_request] on_main)
       (initial_messages (lit ''Analyze src/core.js'')) empty_state =
     Continue
       (initial_messages (lit ''Analyze src/core.js'') @
        [assistant_entry unknown_request,
         PDict [(lit ''role'', PStr (lit ''tool'')),
                (lit ''tool_call_id'', PStr (lit ''call_3'')),
                (lit ''content'', PStr (lit ''null''))]])
       (empty_state\<lparr>model_calls := 1\<rparr>)
   \<and> tool_log (state_of (loop_body (requesting [unknown_request, fetch_request] on_main)
       (initial_messages (lit ''Analyze src/core.js'')) empty_state)) = []
   \<and> http_log (state_of (loop_body (requesting [unknown_request, fetch_request] on_main)
       (initial_messages (lit ''Analyze src/core.js'')) empty_state)) = []
   \<and> chat_completions_create (requesting [truncated_request] on_main)
       (model_calls empty_state) (initial_messages (lit ''Analyze src/core.js''))
     = Inr [\<lparr>content = None, tool_calls = Some [truncated_request]\<rparr>]
   \<and> loop_body (requesting [truncated_request] on_main)
       (initial_messages (lit ''Analyze src/core.js'')) empty_state =
     Raise JSONDecodeError (empty_state\<lparr>model_calls := 1\<rparr>)"
proof -
  have unknown: "loop_body (requesting [unknown_request, fetch_request] on_main)
       (initial_messages (lit ''Analyze src/core.js'')) empty_state =
     Continue
       (initial_messages (lit ''Analyze src/core.js'') @
        [assistant_entry unknown_request,
         PDict [(lit ''role'', PStr (lit ''tool'')),
                (lit ''tool_call_id'', PStr (lit ''call_3'')),
                (lit ''content'', PStr (lit ''null''))]])
       (empty_state\<lparr>model_calls := 1\<rparr>)"
    by (simp add: loop_body_def requesting_def unknown_request_def example_loads_def
        example_dumps_def process_tool_call_def tool_entry_def empty_state_def)
  have truncated: "loop_body (requesting [truncated_request] on_main)
       (initial_messages (lit ''Analyze src/core.js'')) empty_state =
     Raise JSONDecodeError (empty_state\<lparr>model_calls := 1\<rparr>)"
    by (simp add: loop_body_def requesting_def truncated_request_def example_loads_def
        empty_state_def)
  show ?thesis
    unfolding unknown truncated
    by (simp add: requesting_def empty_state_def)
qed

text \<open>
  Claim C4, amended. In every pass through the loop body in which the model's message
  holds one or more requested invocations, the pass is the one that the same message
  with only its first invocation gives, so further invocations are never executed; and
  at most one tool function is entered, for the first invocation: none when
  \<open>json.loads\<close> raises on its argument string, otherwise what the dispatcher enters for
  its name and parsed arguments (\<open>dispatched\<close>: one tool function when the name is
  \<open>fetch_github_file\<close> or \<open>analyze_code_quality\<close> and the arguments are a dictionary
  whose keys are exactly the parameters of that tool, none otherwise).
\<close>

theorem first_request_only:
  assumes "chat_completions_create e (model_calls s) messages = Inr (assistant_message # others)"
      and "tool_calls assistant_message = Some (tool_call # further)"
  shows "loop_body e messages s =
           loop_body (answering e (assistant_message\<lparr>tool_calls := Some [tool_call]\<rparr>))
             messages s
       \<and> tool_log (state_of (loop_body e messages s)) =
           tool_log s @ (case json_loads e (function_arguments tool_call) of
                           Inl err \<Rightarrow> []
                         | Inr tool_args \<Rightarrow> dispatched (function_name tool_call) tool_args)
       \<and> length (tool_log (state_of (loop_body e messages s))) \<le> Suc (length (tool_log s))"
proof -
  have "length (case json_loads e (function_arguments tool_call) of
                  Inl err \<Rightarrow> []
                | Inr tool_args \<Rightarrow> dispatched (function_name tool_call) tool_args) \<le> 1"
    using length_dispatched by (simp split: sum.split)
  then show ?thesis
    using loop_body_first [OF assms] loop_body_tool_log [OF assms] by simp
qed

theorem first_request_only_witness:
  "chat_completions_create (requesting [fetch_request, analyze_request] master_only)
     (model_calls empty_state) (initial_messages (lit ''Analyze src/core.js''))
     = Inr [\<lparr>content = None, tool_calls = Some [fetch_request, analyze_request]\<rparr>]
   \<and> loop_body (requesting [fetch_request, analyze_request] master_only)
       (initial_messages (lit ''Analyze src/core.js'')) empty_state =
     loop_body (answering (requesting [fetch_request, analyze_request] master_only)
                 \<lparr>content = None, tool_calls = Some [fetch_request]\<rparr>)
       (initial_messages (lit ''Analyze src/core.js'')) empty_state
   \<and> tool_log (state_of (loop_body (requesting [fetch_request, analyze_request] master_only)
       (initial_messages (lit ''Analyze src/core.js'')) empty_state))
     = [FetchGithubFile (PStr jquery) (PStr jquery) (PStr core_js)]"
proof -
  let ?e = "requesting [fetch_request, analyze_request] master_only"
  let ?m = "initial_messages (lit ''Analyze src/core.js'')"
  have chat: "chat_completions_create ?e (model_calls empty_state) ?m
                = Inr (\<lparr>content = None, tool_calls = Some [fetch_request, analyze_request]\<rparr> # [])"
    by (simp add: requesting_def)
  have calls: "tool_calls \<lparr>content = None, tool_calls = Some [fetch_request, analyze_request]\<rparr>
                = Some (fetch_request # [analyze_request])"
    by simp
  have loads: "json_loads ?e (function_arguments fetch_request)
                = Inr (PDict [(lit ''owner'', PStr jquery), (lit ''repo'', PStr jquery),
                              (lit ''file_path'', PStr core_js)])"
    by (simp add: requesting_def fetch_request_def example_loads_def)
  have run: "dispatched (function_name fetch_request)
               (PDict [(lit ''owner'', PStr jquery), (lit ''repo'', PStr jquery),
                       (lit ''file_path'', PStr core_js)])
             = [FetchGithubFile (PStr jquery) (PStr jquery) (PStr core_js)]"
    by (simp add: dispatched_def fetch_request_def bind_kwargs_def)
  have log: "tool_log empty_state = []"
    by (simp add: empty_state_def)
  note only = first_request_only [OF chat calls]
  have same: "loop_body ?e ?m empty_state =
                loop_body (answering ?e \<lparr>content = None, tool_calls = Some [fetch_request]\<rparr>)
                  ?m empty_state"
    using only [THEN conjunct1] by simp
  have ran: "tool_log (state_of (loop_body ?e ?m empty_state))
               = [FetchGithubFile (PStr jquery) (PStr jquery) (PStr core_js)]"
    using only [THEN conjunct2, THEN conjunct1] loads run log by simp
  from chat same ran show ?thesis by simp
qed

section \<open>The bound on the iterations\<close>

text \<open>
  Claim C5. \<open>max_iterations\<close> is 10; every run of \<open>run_agent\<close> ends with a result
  (\<open>run_loop\<close> is a total function, by the termination proof above) after at most 10
  chat completions; and when each of the 10 passes ends with a tool result appended, so
  that no response without a tool request was seen, the run has made exactly 10 chat
  completions and returns the string \<open>Max iterations reached\<close>.
\<close>

theorem run_agent_bounded:
  "max_iterations = 10
   \<and> (\<exists>result s'. run_agent e user_message s = (result, s'))
   \<and> model_calls (snd (run_agent e user_message s)) \<le> model_calls s + 10
   \<and> (tool_rounds e 10 (initial_messages user_message) s \<longrightarrow>
        fst (run_agent e user_message s) = Inr (Some (lit ''Max iterations reached''))
        \<and> model_calls (snd (run_agent e user_message s)) = model_calls s + 10)"
  using run_loop_calls [of e 0 "initial_messages user_message" s]
    run_loop_rounds [of e 0 "initial_messages user_message" s]
  by (simp add: run_agent_def max_iterations_def)

theorem run_agent_bounded_witness:
  "tool_rounds (requesting [analyze_request] on_main) 10 (initial_messages (lit ''Analyze src/core.js''))
     empty_state
   \<and> fst (run_agent (requesting [analyze_request] on_main) (lit ''Analyze src/core.js'') empty_state)
       = Inr (Some (lit ''Max iterations reached''))
   \<and> model_calls (snd (run_agent (requesting [analyze_request] on_main)
         (lit ''Analyze src/core.js'') empty_state)) = 10"
proof -
  have none: "file_cache empty_state core_js = None" "model_calls empty_state = 0"
    by (simp_all add: empty_state_def)
  have rounds: "tool_rounds (requesting [analyze_request] on_main) 10
                  (initial_messages (lit ''Analyze src/core.js'')) empty_state"
    using none(1) by (rule analyze_request_rounds)
  have "tool_rounds (requesting [analyze_request] on_main) 10
          (initial_messages (lit ''Analyze src/core.js'')) empty_state \<longrightarrow>
        fst (run_agent (requesting [analyze_request] on_main) (lit ''Analyze src/core.js'')
          empty_state) = Inr (Some (lit ''Max iterations reached''))
        \<and> model_calls (snd (run_agent (requesting [analyze_request] on_main)
              (lit ''Analyze src/core.js'') empty_state)) = model_calls empty_state + 10"
    using run_agent_bounded [of "requesting [analyze_request] on_main"
        "lit ''Analyze src/core.js''" empty_state]
    by blast
  with rounds none(2) show ?thesis by simp
qed

end
